theory Spec2Isabelle
  imports Main
begin

section \<open>Values, errors and the data model\<close>

text \<open>
  The program is \<^verbatim>\<open>src/index.js\<close>: an Express application whose route handlers call an
  OAuth provider, the chess platform's HTTP API, a SOAP identity service and a Mongoose
  collection \<^verbatim>\<open>Player\<close>. A JavaScript string is a \<open>string\<close>, one \<open>char\<close> for each
  code unit, so that code units above 255 are outside the model; a value that may be
  \<^verbatim>\<open>undefined\<close> (a session field, a form field, an environment variable) is a
  \<open>string option\<close> with \<open>None\<close> for \<^verbatim>\<open>undefined\<close>. Form fields are strings or absent;
  arrays and nested objects in the form body are outside the model.
\<close>

datatype error =
    ReferenceError string
  | TypeError string
  | Error string

text \<open>
  \<^verbatim>\<open>req.session\<close>, the fields the handlers read and write. The test \<^verbatim>\<open>!userId\<close> holds of
  \<^verbatim>\<open>undefined\<close> and of the empty string.
\<close>

record session =
  userId :: "string option"
  userName :: "string option"
  authToken :: "string option"
  returnUrl :: "string option"

text \<open>
  \<^verbatim>\<open>playerSchema\<close> (lines 25 to 34). \<open>userId\<close> is a string: the only \<^verbatim>\<open>Player.create\<close>
  calls pass a session user id that has passed the \<^verbatim>\<open>!userId\<close> test. The type
  parameter is what the path \<open>birthYear\<close> holds. In the document a handler passes to
  \<^verbatim>\<open>Player.create\<close> it is the form value, a \<open>string option\<close>; in a document of the
  collection it is what the schema's cast to \<^verbatim>\<open>Number\<close> makes of that value (a number,
  \<^verbatim>\<open>null\<close> or nothing), a type \<open>'n\<close> that the model leaves open. The paths declared
  \<^verbatim>\<open>String\<close> and \<^verbatim>\<open>Boolean\<close> receive strings and booleans and keep them. The fields that
  Mongoose adds by itself (\<^verbatim>\<open>_id\<close>, \<^verbatim>\<open>__v\<close>) are read by no handler and are left out.
\<close>

record 'y player =
  userId :: string
  userName :: "string option"
  firstName :: "string option"
  lastName :: "string option"
  birthYear :: 'y
  govId :: string
  govIdSignature :: string
  banned :: bool

text \<open>The filters the handlers pass to \<^verbatim>\<open>Player.find\<close>.\<close>

datatype query =
    Q_signature_banned string  \<comment> \<open>\<^verbatim>\<open>{govIdSignature: idSig, banned: true}\<close>\<close>
  | Q_userId_nin "string list" \<comment> \<open>\<^verbatim>\<open>{userId: {$nin: userIds}, banned: false}\<close>\<close>
  | Q_userId_in "string list"  \<comment> \<open>\<^verbatim>\<open>{userId: {$in: userIds}, banned: false}\<close>\<close>
  | Q_banned                   \<comment> \<open>\<^verbatim>\<open>{banned: true}\<close>\<close>

fun matches :: "query \<Rightarrow> 'y player \<Rightarrow> bool" where
  "matches (Q_signature_banned sig) p = (govIdSignature p = sig \<and> banned p)"
| "matches (Q_userId_nin ids) p = (userId p \<notin> set ids \<and> \<not> banned p)"
| "matches (Q_userId_in ids) p = (userId p \<in> set ids \<and> \<not> banned p)"
| "matches Q_banned p = banned p"

text \<open>
  Every operation a handler issues outside the process, with its arguments: the SOAP
  client, the platform API, the OAuth token endpoint and the \<^verbatim>\<open>Player\<close> collection.
\<close>

datatype call =
    SoapCreateClient
  | SoapVerify "string option" string string "string option"
  | TeamUsers "string option"
  | TeamJoin "string option"
  | TeamKick string "string option"
  | OAuthGetToken "string option"
  | ApiAccount
  | PlayerFind query
  | PlayerCreate "string option player"
  | PlayerFindOneAndUpdate string bool

fun is_team_call :: "call \<Rightarrow> bool" where
  "is_team_call (TeamUsers t) = True"
| "is_team_call (TeamJoin t) = True"
| "is_team_call (TeamKick u t) = True"
| "is_team_call c = False"

text \<open>
  The state outside a request: the documents of the \<^verbatim>\<open>Player\<close> collection in insertion
  order, and the operations issued so far, oldest first.
\<close>

record 'n world =
  players :: "'n player list"
  calls :: "call list"

record oauth_token =
  access_token :: "string option"

record account =
  acct_id :: "string option"
  acct_username :: "string option"

text \<open>
  What is not in \<^verbatim>\<open>src/\<close> is a parameter: the configured administrator id, the
  libraries' pure functions (\<^verbatim>\<open>crypto\<close>'s SHA-1 hex digest of a string's bytes,
  \<^verbatim>\<open>toLocaleUpperCase('tr-TR')\<close>) and the answers of the remote services. A remote call
  answers with a value or rejects with an error; \<open>api_account\<close> is the answer of
  \<^verbatim>\<open>GET /api/account\<close> to a bearer token. \<open>castNumber\<close> is Mongoose's cast of a value
  to the schema type \<^verbatim>\<open>Number\<close>: it gives what the path will hold, or the error of a
  value that is no number. \<open>store_rejects\<close> says which
  \<^verbatim>\<open>Player\<close> operations the store rejects (connection lost, validation failed) and
  with what.
\<close>

record 'n env =
  LICHESS_TEAM_ADMIN :: "string option"
  sha1_hex :: "string \<Rightarrow> string"
  toLocaleUpperCase_tr :: "string \<Rightarrow> string"
  createClientAsync :: "error + unit"
  TCKimlikNoDogrulaAsync ::
    "string option \<Rightarrow> string \<Rightarrow> string \<Rightarrow> string option \<Rightarrow> error + bool"
  team_users :: "string option \<Rightarrow> error + string list"
  team_join :: "string option \<Rightarrow> error + bool"
  team_kick :: "string \<Rightarrow> string option \<Rightarrow> error + bool"
  getToken :: "string option \<Rightarrow> error + oauth_token option"
  api_account :: "string option \<Rightarrow> error + account"
  castNumber :: "string option \<Rightarrow> error + 'n"
  store_rejects :: "call \<Rightarrow> error option"

datatype 'n response =
    Redirect nat string
  | Render string "'n player list"

section \<open>Asynchronous code as state passing with errors\<close>

text \<open>
  An \<^verbatim>\<open>async\<close> computation takes the world and returns the world it leaves, with its
  value or the error it threw. What was done before a throw stays done.
\<close>

type_synonym ('n, 'a) io = "'n world \<Rightarrow> (error + 'a) \<times> 'n world"

definition io_return :: "'a \<Rightarrow> ('n, 'a) io" where
  "io_return x = (\<lambda>w. (Inr x, w))"

definition io_throw :: "error \<Rightarrow> ('n, 'a) io" where
  "io_throw e = (\<lambda>w. (Inl e, w))"

definition io_bind :: "('n, 'a) io \<Rightarrow> ('a \<Rightarrow> ('n, 'b) io) \<Rightarrow> ('n, 'b) io" where
  "io_bind m f = (\<lambda>w. case m w of (Inl e, w') \<Rightarrow> (Inl e, w') | (Inr x, w') \<Rightarrow> f x w')"

text \<open>\<^verbatim>\<open>try { m } catch (err) { h }\<close>\<close>

definition io_catch :: "('n, 'a) io \<Rightarrow> (error \<Rightarrow> ('n, 'a) io) \<Rightarrow> ('n, 'a) io" where
  "io_catch m h = (\<lambda>w. case m w of (Inl e, w') \<Rightarrow> h e w' | (Inr x, w') \<Rightarrow> (Inr x, w'))"

definition issue :: "call \<Rightarrow> ('n, unit) io" where
  "issue c = (\<lambda>w. (Inr (), w\<lparr>calls := calls w @ [c]\<rparr>))"

text \<open>A remote call: it is issued, then its answer arrives.\<close>

definition remote :: "call \<Rightarrow> error + 'a \<Rightarrow> ('n, 'a) io" where
  "remote c r = io_bind (issue c) (\<lambda>_. case r of Inl e \<Rightarrow> io_throw e | Inr x \<Rightarrow> io_return x)"

text \<open>
  \<^verbatim>\<open>await Promise.all([m1, m2])\<close>: both operations are started before either is awaited, so
  both run whatever the other does; the result is the pair of values, or a rejection as
  soon as one of them rejects. The order of the two entries in \<open>calls\<close> is the order in
  which the array is built.
\<close>

definition promise_all2 :: "('n, 'a) io \<Rightarrow> ('n, 'b) io \<Rightarrow> ('n, 'a \<times> 'b) io" where
  "promise_all2 m1 m2 =
     (\<lambda>w. case m1 w of (r1, w1) \<Rightarrow>
           (case m2 w1 of (r2, w2) \<Rightarrow>
              (case r1 of
                 Inl e \<Rightarrow> (Inl e, w2)
               | Inr x \<Rightarrow> (case r2 of Inl e \<Rightarrow> (Inl e, w2) | Inr y \<Rightarrow> (Inr (x, y), w2)))))"

section \<open>The Player collection\<close>

definition Player_find :: "'n env \<Rightarrow> query \<Rightarrow> ('n, 'n player list) io" where
  "Player_find env q =
     io_bind (issue (PlayerFind q)) (\<lambda>_.
       case store_rejects env (PlayerFind q) of
         Some e \<Rightarrow> io_throw e
       | None \<Rightarrow> (\<lambda>w. (Inr (filter (matches q) (players w)), w)))"

text \<open>
  \<^verbatim>\<open>Player.create(doc)\<close> builds the document by the schema before anything is written:
  \<open>birthYear\<close> becomes its cast to \<^verbatim>\<open>Number\<close>, and a value that cannot be cast fails
  the validation, so that the call rejects and nothing is stored. \<open>PlayerCreate\<close> in
  \<open>calls\<close> records the document as the handler passed it.
\<close>

definition cast_by_schema :: "string option player \<Rightarrow> 'n \<Rightarrow> 'n player" where
  "cast_by_schema doc n =
     \<lparr>userId = userId doc, userName = userName doc, firstName = firstName doc,
      lastName = lastName doc, birthYear = n, govId = govId doc,
      govIdSignature = govIdSignature doc, banned = banned doc\<rparr>"

definition Player_create :: "'n env \<Rightarrow> string option player \<Rightarrow> ('n, unit) io" where
  "Player_create env doc =
     io_bind (issue (PlayerCreate doc)) (\<lambda>_.
       case castNumber env (birthYear doc) of
         Inl e \<Rightarrow> io_throw e
       | Inr n \<Rightarrow>
           (case store_rejects env (PlayerCreate doc) of
              Some e \<Rightarrow> io_throw e
            | None \<Rightarrow> (\<lambda>w. (Inr (), w\<lparr>players := players w @ [cast_by_schema doc n]\<rparr>))))"

text \<open>\<^verbatim>\<open>findOneAndUpdate({userId}, {banned: b})\<close> changes the first document that matches.\<close>

fun set_banned_first :: "string \<Rightarrow> bool \<Rightarrow> 'y player list \<Rightarrow> 'y player list" where
  "set_banned_first u b [] = []"
| "set_banned_first u b (p # ps) =
     (if userId p = u then p\<lparr>banned := b\<rparr> # ps else p # set_banned_first u b ps)"

definition Player_findOneAndUpdate ::
  "'n env \<Rightarrow> string \<Rightarrow> bool \<Rightarrow> ('n, 'n player option) io" where
  "Player_findOneAndUpdate env u b =
     io_bind (issue (PlayerFindOneAndUpdate u b)) (\<lambda>_.
       case store_rejects env (PlayerFindOneAndUpdate u b) of
         Some e \<Rightarrow> io_throw e
       | None \<Rightarrow> (\<lambda>w. (Inr (find (\<lambda>p. userId p = u) (players w)),
                        w\<lparr>players := set_banned_first u b (players w)\<rparr>)))"

section \<open>Masking the national id\<close>

text \<open>\<^verbatim>\<open>\d\<close> without the \<^verbatim>\<open>u\<close> flag: the ten ASCII digits.\<close>

definition is_digit :: "char \<Rightarrow> bool" where
  "is_digit c = (c \<in> set ''0123456789'')"

definition digits_at :: "nat \<Rightarrow> string \<Rightarrow> bool" where
  "digits_at n s = (n \<le> length s \<and> list_all is_digit (take n s))"

text \<open>
  \<^verbatim>\<open>id.replace(/(?<=\d{3})\d{5}/, '*****')\<close>: the pattern is not global, so the leftmost
  match is replaced and the rest is copied. \<open>mask_scan\<close> tries each start position from
  left to right; \<open>before\<close> is the text already passed, last character first, so the
  lookbehind \<^verbatim>\<open>(?<=\d{3})\<close> reads its first three characters. At the end of the string
  \<^verbatim>\<open>\d{5}\<close> cannot match and the string is returned as it is.
\<close>

fun mask_scan :: "string \<Rightarrow> string \<Rightarrow> string" where
  "mask_scan before [] = rev before"
| "mask_scan before (c # cs) =
     (if digits_at 3 before \<and> digits_at 5 (c # cs)
      then rev before @ ''*****'' @ drop 5 (c # cs)
      else mask_scan (c # before) cs)"

definition mask_govId :: "string \<Rightarrow> string" where
  "mask_govId i = mask_scan [] i"

text \<open>\<open>has_digit_run n s\<close>: somewhere in \<open>s\<close> there are \<open>n\<close> digits in a row.\<close>

fun has_digit_run :: "nat \<Rightarrow> string \<Rightarrow> bool" where
  "has_digit_run n [] = (n = 0)"
| "has_digit_run n (c # cs) = (digits_at n (c # cs) \<or> has_digit_run n cs)"

section \<open>The clients of the remote services\<close>

text \<open>
  \<^verbatim>\<open>verifyUserGovId\<close> (lines 81 to 92). The client is created first; the arguments of the
  SOAP call are evaluated next, and \<^verbatim>\<open>firstName.toLocaleUpperCase\<close> throws a
  \<^verbatim>\<open>TypeError\<close> when the name is \<^verbatim>\<open>undefined\<close>. The result is the truth value of
  \<^verbatim>\<open>TCKimlikNoDogrulaResult\<close>.
\<close>

definition verifyUserGovId ::
  "'n env \<Rightarrow> string option \<Rightarrow> string option \<Rightarrow> string option \<Rightarrow> string option
     \<Rightarrow> ('n, bool) io" where
  "verifyUserGovId env i firstNm lastNm birthYr =
     io_bind (remote SoapCreateClient (createClientAsync env)) (\<lambda>_.
       case firstNm of
         None \<Rightarrow> io_throw (TypeError ''toLocaleUpperCase of undefined'')
       | Some fn \<Rightarrow>
           (case lastNm of
              None \<Rightarrow> io_throw (TypeError ''toLocaleUpperCase of undefined'')
            | Some ln \<Rightarrow>
                remote
                  (SoapVerify i (toLocaleUpperCase_tr env fn) (toLocaleUpperCase_tr env ln) birthYr)
                  (TCKimlikNoDogrulaAsync env i (toLocaleUpperCase_tr env fn)
                     (toLocaleUpperCase_tr env ln) birthYr)))"

text \<open>\<^verbatim>\<open>getTeamMembers\<close> with \<^verbatim>\<open>getUserIds\<close> (lines 62 to 79): the ids of the streamed members.\<close>

definition getTeamMembers :: "'n env \<Rightarrow> string option \<Rightarrow> ('n, string list) io" where
  "getTeamMembers env tok = remote (TeamUsers tok) (team_users env tok)"

text \<open>\<^verbatim>\<open>kickTeamMember\<close> (lines 94 to 100) and \<^verbatim>\<open>joinTeam\<close> (lines 102 to 108): the truth value of \<^verbatim>\<open>ok\<close>.\<close>

definition kickTeamMember :: "'n env \<Rightarrow> string \<Rightarrow> string option \<Rightarrow> ('n, bool) io" where
  "kickTeamMember env u tok = remote (TeamKick u tok) (team_kick env u tok)"

definition joinTeam :: "'n env \<Rightarrow> string option \<Rightarrow> ('n, bool) io" where
  "joinTeam env tok = remote (TeamJoin tok) (team_join env tok)"

text \<open>
  The identifiers a function of the module can see besides its own parameters and
  locals: the bindings of the module (lines 4 to 110, with the implicit global
  \<^verbatim>\<open>mongoose\<close> of line 21) and those of Node's module wrapper. Node's global object has
  no property \<^verbatim>\<open>token\<close> either.
\<close>

definition module_scope :: "string list" where
  "module_scope =
     [''APP_PORT'', ''LICHESS_CLIENT_ID'', ''LICHESS_CLIENT_SECRET'', ''GOV_WSDL'',
      ''SESSION_SECRET'', ''MONGODB_URL'', ''LICHESS_TEAM_ID'', ''LICHESS_TEAM_ADMIN'',
      ''express'', ''oauth'', ''axios'', ''crypto'', ''soap'', ''session'', ''MongoStore'',
      ''ndjson'', ''twig'', ''api'', ''mongoose'', ''playerSchema'', ''Player'', ''scopes'',
      ''oauth2'', ''app'', ''getUserIds'', ''getTeamMembers'', ''verifyUserGovId'',
      ''kickTeamMember'', ''joinTeam'', ''getUserInfo'',
      ''require'', ''module'', ''exports'', ''__filename'', ''__dirname'',
      ''process'', ''console'', ''global'', ''Buffer'']"

text \<open>Reading an identifier that no enclosing scope binds throws a \<^verbatim>\<open>ReferenceError\<close>.\<close>

definition resolve :: "string list \<Rightarrow> string \<Rightarrow> ('n, unit) io" where
  "resolve scope x = (if x \<in> set scope then io_return () else io_throw (ReferenceError x))"

text \<open>
  \<^verbatim>\<open>getUserInfo\<close> (lines 110 to 116). Its parameter is \<^verbatim>\<open>authToken\<close>, and the header it
  builds reads \<^verbatim>\<open>token.access_token\<close>: \<^verbatim>\<open>token\<close> is resolved in the scope of the
  function while the arguments of \<^verbatim>\<open>api.get\<close> are evaluated, before the request is
  issued. Were it bound, the request would be issued and not awaited: \<^verbatim>\<open>data\<close> is then
  the property \<^verbatim>\<open>data\<close> of a pending promise, \<^verbatim>\<open>undefined\<close>, and that is returned.
  The answer \<open>api_account env\<close> of the platform is read on no path.
\<close>

definition getUserInfo :: "'n env \<Rightarrow> string option \<Rightarrow> ('n, account option) io" where
  "getUserInfo env authTok =
     io_bind (resolve (''authToken'' # module_scope) ''token'') (\<lambda>_.
       io_bind (issue ApiAccount) (\<lambda>_. io_return None))"

section \<open>The route handlers\<close>

text \<open>
  \<^verbatim>\<open>app.get('/callback')\<close> (lines 144 to 174), given \<^verbatim>\<open>req.query.code\<close> and the session; it
  returns the response and the session it leaves. \<^verbatim>\<open>token.access\<close>, the argument of
  \<^verbatim>\<open>getUserInfo\<close>, is a property the token object does not have. Destructuring
  \<^verbatim>\<open>undefined\<close> throws a \<^verbatim>\<open>TypeError\<close>.
\<close>

definition callback ::
  "'n env \<Rightarrow> string option \<Rightarrow> session \<Rightarrow> ('n, 'n response \<times> session) io" where
  "callback env code sess =
     (let returnTo = (case session.returnUrl sess of
                        None \<Rightarrow> ''/''
                      | Some u \<Rightarrow> if u = [] then ''/'' else u)
      in io_catch
           (io_bind (remote (OAuthGetToken code) (getToken env code)) (\<lambda>result.
              case result of
                None \<Rightarrow> io_throw (Error ''Token not exists'')
              | Some token \<Rightarrow>
                  io_bind (getUserInfo env None) (\<lambda>info.
                    case info of
                      None \<Rightarrow> io_throw (TypeError ''Cannot destructure undefined'')
                    | Some acct \<Rightarrow>
                        io_return
                          (Redirect 303 returnTo,
                           sess\<lparr>session.userId := acct_id acct,
                                session.userName := acct_username acct,
                                session.authToken := access_token token\<rparr>))))
           (\<lambda>err. io_return (Redirect 303 ''/'', sess)))"

text \<open>\<^verbatim>\<open>req.body\<close> of \<^verbatim>\<open>POST /verify/gov\<close>: the fields \<^verbatim>\<open>id\<close>, \<^verbatim>\<open>name\<close>, \<^verbatim>\<open>surname\<close>, \<^verbatim>\<open>year\<close>.\<close>

record verify_body =
  id' :: "string option"
  name :: "string option"
  surname :: "string option"
  year :: "string option"

text \<open>
  \<^verbatim>\<open>app.post('/verify/gov')\<close> (lines 212 to 278). \<^verbatim>\<open>hash.update(id, 'ascii')\<close> throws a
  \<^verbatim>\<open>TypeError\<close> when \<^verbatim>\<open>id\<close> is \<^verbatim>\<open>undefined\<close>.
\<close>

definition post_verify_gov ::
  "'n env \<Rightarrow> verify_body \<Rightarrow> session \<Rightarrow> ('n, 'n response) io" where
  "post_verify_gov env body sess =
     (case session.userId sess of
        None \<Rightarrow> io_return (Redirect 303 ''/auth?returnUrl=/verify/gov'')
      | Some uid \<Rightarrow>
          if uid = [] then io_return (Redirect 303 ''/auth?returnUrl=/verify/gov'')
          else
            io_catch
              (io_bind (verifyUserGovId env (id' body) (name body) (surname body) (year body))
                 (\<lambda>status.
                    if \<not> status then io_return (Redirect 303 ''/verify/gov'')
                    else
                      (case id' body of
                         None \<Rightarrow> io_throw (TypeError ''The data argument must be a string'')
                       | Some i \<Rightarrow>
                           io_bind (Player_find env (Q_signature_banned (sha1_hex env i)))
                             (\<lambda>bannedPlayers.
                                if length bannedPlayers > 0 then
                                  io_bind
                                    (if find (\<lambda>bannedPlayer. userId bannedPlayer = uid)
                                          bannedPlayers = None
                                     then Player_create env
                                            \<lparr>userId = uid,
                                             userName = session.userName sess,
                                             firstName = name body,
                                             lastName = surname body,
                                             birthYear = year body,
                                             govId = mask_govId i,
                                             govIdSignature = sha1_hex env i,
                                             banned = True\<rparr>
                                     else io_return ())
                                    (\<lambda>_. io_return (Redirect 303 ''/messages/banned''))
                                else
                                  io_bind (joinTeam env (session.authToken sess))
                                    (\<lambda>joined.
                                       if \<not> joined
                                       then io_return (Redirect 303 ''/messages/error'')
                                       else
                                         io_bind
                                           (Player_create env
                                              \<lparr>userId = uid,
                                               userName = session.userName sess,
                                               firstName = name body,
                                               lastName = surname body,
                                               birthYear = year body,
                                               govId = mask_govId i,
                                               govIdSignature = sha1_hex env i,
                                               banned = False\<rparr>)
                                           (\<lambda>_. io_return
                                                  (Redirect 303 ''/messages/success'')))))))
              (\<lambda>err. io_return (Redirect 303 ''/messages/error'')))"

text \<open>The route parameter of \<^verbatim>\<open>/players/:playerType(waiting|verified)\<close>.\<close>

datatype playerType = waiting | verified

fun playerType_name :: "playerType \<Rightarrow> string" where
  "playerType_name waiting = ''waiting''"
| "playerType_name verified = ''verified''"

text \<open>\<^verbatim>\<open>app.get('/players/:playerType(waiting|verified)')\<close> (lines 282 to 312).\<close>

definition get_players :: "'n env \<Rightarrow> playerType \<Rightarrow> session \<Rightarrow> ('n, 'n response) io" where
  "get_players env pt sess =
     (case session.userId sess of
        None \<Rightarrow> io_return (Redirect 303 (''/auth?returnUrl=/players/'' @ playerType_name pt))
      | Some adminId \<Rightarrow>
          if adminId = []
          then io_return (Redirect 303 (''/auth?returnUrl=/players/'' @ playerType_name pt))
          else if Some adminId \<noteq> LICHESS_TEAM_ADMIN env then io_return (Redirect 303 ''/'')
          else
            io_catch
              (io_bind (getTeamMembers env (session.authToken sess)) (\<lambda>userIds.
                 io_bind
                   (Player_find env
                      (if pt = waiting then Q_userId_nin userIds else Q_userId_in userIds))
                   (\<lambda>found. io_return
                      (Render (''players/'' @ playerType_name pt @ ''.html.twig'') found))))
              (\<lambda>err. io_return (Redirect 303 ''/messages/error'')))"

text \<open>\<^verbatim>\<open>app.get('/players/banned')\<close> (lines 314 to 341).\<close>

definition get_players_banned :: "'n env \<Rightarrow> session \<Rightarrow> ('n, 'n response) io" where
  "get_players_banned env sess =
     (case session.userId sess of
        None \<Rightarrow> io_return (Redirect 303 ''/auth?returnUrl=/players/banned'')
      | Some adminId \<Rightarrow>
          if adminId = [] then io_return (Redirect 303 ''/auth?returnUrl=/players/banned'')
          else if Some adminId \<noteq> LICHESS_TEAM_ADMIN env then io_return (Redirect 303 ''/'')
          else
            io_catch
              (io_bind (Player_find env Q_banned) (\<lambda>found.
                 io_return (Render ''players/banned.html.twig'' found)))
              (\<lambda>err. io_return (Redirect 303 ''/messages/error'')))"

text \<open>
  \<^verbatim>\<open>app.post('/players/ban')\<close> (lines 343 to 369), given the form field \<^verbatim>\<open>user\<close>. The two
  results of \<^verbatim>\<open>Promise.all\<close> are bound and not read.
\<close>

definition post_players_ban :: "'n env \<Rightarrow> string \<Rightarrow> session \<Rightarrow> ('n, 'n response) io" where
  "post_players_ban env user sess =
     (case session.userId sess of
        None \<Rightarrow> io_return (Redirect 303 ''/auth?returnUrl=/players/verified'')
      | Some adminId \<Rightarrow>
          if adminId = [] then io_return (Redirect 303 ''/auth?returnUrl=/players/verified'')
          else if Some adminId \<noteq> LICHESS_TEAM_ADMIN env then io_return (Redirect 303 ''/'')
          else
            io_catch
              (io_bind
                 (promise_all2
                    (kickTeamMember env user (session.authToken sess))
                    (Player_findOneAndUpdate env user True))
                 (\<lambda>(kickStatus, found). io_return (Redirect 303 ''/players/verified'')))
              (\<lambda>err. io_return (Redirect 303 ''/messages/error'')))"

text \<open>\<^verbatim>\<open>app.post('/players/unban')\<close> (lines 371 to 393).\<close>

definition post_players_unban :: "'n env \<Rightarrow> string \<Rightarrow> session \<Rightarrow> ('n, 'n response) io" where
  "post_players_unban env user sess =
     (case session.userId sess of
        None \<Rightarrow> io_return (Redirect 303 ''/auth?returnUrl=/players/banned'')
      | Some adminId \<Rightarrow>
          if adminId = [] then io_return (Redirect 303 ''/auth?returnUrl=/players/banned'')
          else if Some adminId \<noteq> LICHESS_TEAM_ADMIN env then io_return (Redirect 303 ''/'')
          else
            io_catch
              (io_bind (Player_findOneAndUpdate env user False) (\<lambda>found.
                 io_return (Redirect 303 ''/players/verified'')))
              (\<lambda>err. io_return (Redirect 303 ''/messages/error'')))"

section \<open>A concrete deployment\<close>

text \<open>
  One environment, session, form and store on which the handlers are run below: every
  service answers, the store accepts every operation, \<open>admin\<close> is the administrator.
  The digest, the upper-casing and the cast are stand-ins for the libraries' functions:
  numbers are integers here, and the cast knows the one year that is submitted below.
\<close>

definition ex_env :: "int env" where
  "ex_env =
     \<lparr>LICHESS_TEAM_ADMIN = Some ''admin'',
      sha1_hex = (\<lambda>s. ''sha1:'' @ s),
      toLocaleUpperCase_tr = (\<lambda>s. s),
      createClientAsync = Inr (),
      TCKimlikNoDogrulaAsync = (\<lambda>i fn ln y. Inr True),
      team_users = (\<lambda>t. Inr [''alice'']),
      team_join = (\<lambda>t. Inr True),
      team_kick = (\<lambda>u t. Inr True),
      getToken = (\<lambda>c. Inr (Some \<lparr>access_token = Some ''tok''\<rparr>)),
      api_account = (\<lambda>t. Inr \<lparr>acct_id = Some ''bob'', acct_username = Some ''Bob''\<rparr>),
      castNumber = (\<lambda>y. if y = Some ''1990'' then Inr 1990 else Inl (Error ''CastError'')),
      store_rejects = (\<lambda>c. None)\<rparr>"

definition ex_session :: "string \<Rightarrow> session" where
  "ex_session u =
     \<lparr>session.userId = Some u, session.userName = Some u,
      authToken = Some ''tok'', returnUrl = Some ''/verify/gov''\<rparr>"

definition ex_body :: "string \<Rightarrow> verify_body" where
  "ex_body i = \<lparr>id' = Some i, name = Some ''ALI'', surname = Some ''KAYA'', year = Some ''1990''\<rparr>"

text \<open>The document a handler passes for user \<open>u\<close> and id \<open>i\<close>, and the one that is stored.\<close>

definition ex_doc :: "string \<Rightarrow> string \<Rightarrow> bool \<Rightarrow> string option player" where
  "ex_doc u i b =
     \<lparr>userId = u, userName = Some u, firstName = Some ''ALI'', lastName = Some ''KAYA'',
      birthYear = Some ''1990'', govId = mask_govId i, govIdSignature = ''sha1:'' @ i,
      banned = b\<rparr>"

definition ex_player :: "string \<Rightarrow> string \<Rightarrow> bool \<Rightarrow> int player" where
  "ex_player u i b =
     \<lparr>userId = u, userName = Some u, firstName = Some ''ALI'', lastName = Some ''KAYA'',
      birthYear = 1990, govId = mask_govId i, govIdSignature = ''sha1:'' @ i,
      banned = b\<rparr>"

definition ex_world :: "int player list \<Rightarrow> int world" where
  "ex_world ps = \<lparr>players = ps, calls = []\<rparr>"

text \<open>The same deployment with a store that rejects writes, or reads, and with a failing kick.\<close>

definition ex_env_rejecting_writes :: "int env" where
  "ex_env_rejecting_writes =
     ex_env\<lparr>store_rejects :=
       (\<lambda>c. case c of PlayerCreate d \<Rightarrow> Some (Error ''connection lost'')
                    | PlayerFindOneAndUpdate u b \<Rightarrow> Some (Error ''connection lost'')
                    | _ \<Rightarrow> None)\<rparr>"

definition ex_env_rejecting_reads :: "int env" where
  "ex_env_rejecting_reads =
     ex_env\<lparr>store_rejects :=
       (\<lambda>c. case c of PlayerFind q \<Rightarrow> Some (Error ''connection lost'') | _ \<Rightarrow> None)\<rparr>"

definition ex_env_kick_fails :: "int env" where
  "ex_env_kick_fails =
     ex_env\<lparr>team_kick := (\<lambda>u t. Inl (Error ''Request failed with status code 401''))\<rparr>"

text \<open>A session before login, as \<^verbatim>\<open>GET /auth\<close> leaves it.\<close>

definition ex_anonymous :: session where
  "ex_anonymous =
     \<lparr>session.userId = None, session.userName = None, authToken = None,
      returnUrl = Some ''/verify/gov''\<rparr>"

section \<open>Auxiliary facts\<close>

lemmas io_defs = io_return_def io_throw_def io_bind_def io_catch_def issue_def remote_def
  promise_all2_def

lemmas store_defs = Player_find_def Player_create_def Player_findOneAndUpdate_def
  cast_by_schema_def

lemmas handler_defs = verifyUserGovId_def joinTeam_def kickTeamMember_def getTeamMembers_def

lemmas ex_defs = ex_env_def ex_session_def ex_body_def ex_doc_def ex_player_def ex_world_def

lemma post_verify_gov_created:
  assumes "post_verify_gov env body sess w = (r, w')" and "players w' \<noteq> players w"
  shows "\<exists>uid i b n. session.userId sess = Some uid \<and> id' body = Some i \<and>
           castNumber env (year body) = Inr n \<and>
           players w' = players w @
             [\<lparr>userId = uid, userName = session.userName sess, firstName = name body,
               lastName = surname body, birthYear = n, govId = mask_govId i,
               govIdSignature = sha1_hex env i, banned = b\<rparr>]"
  using assms
  by (auto simp add: post_verify_gov_def handler_defs store_defs io_defs
      split: option.splits sum.splits if_splits prod.splits)

lemma ex_run_success:
  "post_verify_gov ex_env (ex_body i) (ex_session ''bob'') (ex_world []) =
     (Inr (Redirect 303 ''/messages/success''),
      \<lparr>players = [ex_player ''bob'' i False],
       calls = [SoapCreateClient, SoapVerify (Some i) ''ALI'' ''KAYA'' (Some ''1990''),
                PlayerFind (Q_signature_banned (''sha1:'' @ i)), TeamJoin (Some ''tok''),
                PlayerCreate (ex_doc ''bob'' i False)]\<rparr>)"
  by (simp add: post_verify_gov_def handler_defs store_defs io_defs ex_defs)

lemma star_not_digit: "\<not> is_digit CHR ''*''"
  by (simp add: is_digit_def)

lemma mask_scan_changes:
  "mask_scan before rest \<noteq> rev before @ rest \<longleftrightarrow>
     (\<exists>k\<le>length rest. digits_at 3 (rev (take k rest) @ before) \<and> digits_at 5 (drop k rest))"
proof (induction rest arbitrary: before)
  case Nil
  then show ?case by (simp add: digits_at_def)
next
  case (Cons c cs)
  show ?case
  proof (cases "digits_at 3 before \<and> digits_at 5 (c # cs)")
    case True
    then have "is_digit c" by (simp add: digits_at_def)
    then have "c \<noteq> CHR ''*''" using star_not_digit by auto
    then have "mask_scan before (c # cs) \<noteq> rev before @ c # cs"
      using True by simp
    moreover have "\<exists>k\<le>length (c # cs). digits_at 3 (rev (take k (c # cs)) @ before) \<and>
        digits_at 5 (drop k (c # cs))"
      using True by (intro exI[of _ 0]) simp
    ultimately show ?thesis by blast
  next
    case False
    then have step: "mask_scan before (c # cs) = mask_scan (c # before) cs" by auto
    have "(\<exists>k\<le>length (c # cs). digits_at 3 (rev (take k (c # cs)) @ before) \<and>
              digits_at 5 (drop k (c # cs)))
          \<longleftrightarrow> (\<exists>k\<le>length cs. digits_at 3 (rev (take k cs) @ c # before) \<and>
              digits_at 5 (drop k cs))" (is "?L \<longleftrightarrow> ?R")
    proof
      assume ?L
      then obtain k where k: "k \<le> length (c # cs)"
        "digits_at 3 (rev (take k (c # cs)) @ before)" "digits_at 5 (drop k (c # cs))" by blast
      from k False have "k \<noteq> 0" by (cases k) auto
      then obtain k' where "k = Suc k'" by (cases k) auto
      with k show ?R by (intro exI[of _ k']) simp
    next
      assume ?R
      then obtain k where "k \<le> length cs" "digits_at 3 (rev (take k cs) @ c # before)"
        "digits_at 5 (drop k cs)" by blast
      then show ?L by (intro exI[of _ "Suc k"]) simp
    qed
    with Cons.IH[of "c # before"] step show ?thesis by simp
  qed
qed

lemma has_digit_run_iff:
  "has_digit_run n s \<longleftrightarrow> (\<exists>j\<le>length s. digits_at n (drop j s))"
proof (induction s)
  case Nil
  then show ?case by (simp add: digits_at_def)
next
  case (Cons c cs)
  have "(\<exists>j\<le>length (c # cs). digits_at n (drop j (c # cs))) \<longleftrightarrow>
        digits_at n (c # cs) \<or> (\<exists>j\<le>length cs. digits_at n (drop j cs))" (is "?L \<longleftrightarrow> ?R")
  proof
    assume ?L
    then obtain j where j: "j \<le> length (c # cs)" "digits_at n (drop j (c # cs))" by blast
    show ?R
    proof (cases j)
      case 0
      with j show ?thesis by simp
    next
      case (Suc j')
      with j show ?thesis by auto
    qed
  next
    assume ?R
    then show ?L
    proof
      assume "digits_at n (c # cs)"
      then show ?L by (intro exI[of _ 0]) simp
    next
      assume "\<exists>j\<le>length cs. digits_at n (drop j cs)"
      then obtain j where "j \<le> length cs" "digits_at n (drop j cs)" by blast
      then show ?L by (intro exI[of _ "Suc j"]) simp
    qed
  qed
  with Cons.IH show ?case by simp
qed

lemma run_from_lookbehind:
  assumes "k \<le> length s" "digits_at 3 (rev (take k s))" "digits_at 5 (drop k s)"
  shows "digits_at 8 (drop (k - 3) s)"
proof -
  from assms have k3: "3 \<le> k" by (simp add: digits_at_def)
  have a: "take 3 (rev (take k s)) = rev (take 3 (drop (k - 3) s))"
    using assms(1) k3 by (simp add: take_rev drop_take)
  have b: "take 8 (drop (k - 3) s) = take 3 (drop (k - 3) s) @ take 5 (drop k s)"
    using k3 take_add[of 3 5 "drop (k - 3) s"] by simp
  from assms a have "list_all is_digit (take 3 (drop (k - 3) s))"
    by (simp add: digits_at_def)
  with assms b k3 show ?thesis by (auto simp add: digits_at_def)
qed

lemma lookbehind_from_run:
  assumes "j \<le> length s" "digits_at 8 (drop j s)"
  shows "digits_at 3 (rev (take (j + 3) s)) \<and> digits_at 5 (drop (j + 3) s)"
proof -
  from assms have len: "j + 8 \<le> length s" by (auto simp add: digits_at_def)
  have a: "take 3 (rev (take (j + 3) s)) = rev (take 3 (drop j s))"
    using len by (simp add: take_rev drop_take)
  have b: "take 8 (drop j s) = take 3 (drop j s) @ take 5 (drop (j + 3) s)"
    using take_add[of 3 5 "drop j s"] by (simp add: add.commute)
  from assms b have "list_all is_digit (take 3 (drop j s))" "list_all is_digit (take 5 (drop (j + 3) s))"
    by (simp_all add: digits_at_def)
  with a len show ?thesis by (simp add: digits_at_def)
qed

lemma mask_govId_changes: "mask_govId i \<noteq> i \<longleftrightarrow> has_digit_run 8 i"
proof -
  have "mask_govId i \<noteq> i \<longleftrightarrow>
        (\<exists>k\<le>length i. digits_at 3 (rev (take k i)) \<and> digits_at 5 (drop k i))"
    using mask_scan_changes[of "[]" i] by (simp add: mask_govId_def)
  also have "\<dots> \<longleftrightarrow> (\<exists>j\<le>length i. digits_at 8 (drop j i))" (is "?L \<longleftrightarrow> ?R")
  proof
    assume ?L
    then obtain k where k: "k \<le> length i" "digits_at 3 (rev (take k i))"
      "digits_at 5 (drop k i)" by blast
    then have "digits_at 8 (drop (k - 3) i)" by (rule run_from_lookbehind)
    with k(1) show ?R by (intro exI[of _ "k - 3"]) simp
  next
    assume ?R
    then obtain j where j: "j \<le> length i" "digits_at 8 (drop j i)" by blast
    then have "digits_at 3 (rev (take (j + 3) i)) \<and> digits_at 5 (drop (j + 3) i)"
      by (rule lookbehind_from_run)
    moreover from j have "j + 3 \<le> length i" by (auto simp add: digits_at_def)
    ultimately show ?L by blast
  qed
  finally show ?thesis by (simp add: has_digit_run_iff)
qed

lemma mask_scan_length: "length (mask_scan before rest) = length before + length rest"
  by (induction rest arbitrary: before) (auto simp: digits_at_def)

lemma mask_govId_digits:
  assumes "8 \<le> length i" "list_all is_digit i"
  shows "mask_govId i = take 3 i @ ''*****'' @ drop 8 i"
proof -
  from assms(1) obtain a b c r where i: "i = a # b # c # r" and r: "5 \<le> length r"
    by (cases i; cases "tl i"; cases "tl (tl i)") auto
  from assms(2) i have d: "is_digit a" "is_digit b" "is_digit c" "list_all is_digit r" by auto
  from r obtain x xs where rx: "r = x # xs" by (cases r) auto
  have "digits_at 5 r" using r d by (simp add: digits_at_def list_all_iff) (meson in_set_takeD)
  then show ?thesis
    using d by (simp add: i rx mask_govId_def digits_at_def)
qed

text \<open>
  \<^verbatim>\<open>GET /callback\<close> ends in its \<^verbatim>\<open>catch\<close> block whatever the token endpoint answers: the
  exchange rejects, or the token is missing, or \<^verbatim>\<open>getUserInfo\<close> throws the
  \<^verbatim>\<open>ReferenceError\<close> before it issues its request.
\<close>

lemma callback_always_home:
  "callback env code sess w =
     (Inr (Redirect 303 ''/'', sess), w\<lparr>calls := calls w @ [OAuthGetToken code]\<rparr>)"
  by (simp add: callback_def getUserInfo_def resolve_def module_scope_def io_defs Let_def
      split: sum.splits option.splits)

section \<open>Submitting the verification form\<close>

text \<open>
  C9. For every authenticated verification submission for which the identity
  verification answers with a falsy status, the handler redirects (303) back to the
  verification form and the store is unchanged: no PlayerRecord is written, and no
  store operation is issued at all.
\<close>

theorem post_verify_gov_invalid_identity:
  assumes "session.userId sess = Some uid" and "uid \<noteq> []"
    and "createClientAsync env = Inr ()"
    and "name body = Some fn" and "surname body = Some ln"
    and "TCKimlikNoDogrulaAsync env (id' body) (toLocaleUpperCase_tr env fn)
           (toLocaleUpperCase_tr env ln) (year body) = Inr False"
  shows "post_verify_gov env body sess w =
           (Inr (Redirect 303 ''/verify/gov''),
            w\<lparr>calls := calls w @
                 [SoapCreateClient,
                  SoapVerify (id' body) (toLocaleUpperCase_tr env fn)
                    (toLocaleUpperCase_tr env ln) (year body)]\<rparr>)
         \<and> players (snd (post_verify_gov env body sess w)) = players w"
  using assms by (simp add: post_verify_gov_def handler_defs io_defs)

theorem post_verify_gov_invalid_identity_witness:
  "post_verify_gov (ex_env\<lparr>TCKimlikNoDogrulaAsync := (\<lambda>i fn ln y. Inr False)\<rparr>)
     (ex_body ''12345678901'') (ex_session ''bob'') (ex_world [ex_player ''al'' ''10000000001'' False]) =
     (Inr (Redirect 303 ''/verify/gov''),
      \<lparr>players = [ex_player ''al'' ''10000000001'' False],
       calls = [SoapCreateClient, SoapVerify (Some ''12345678901'') ''ALI'' ''KAYA'' (Some ''1990'')]\<rparr>)"
  using post_verify_gov_invalid_identity[of "ex_session ''bob''" "''bob''"
      "ex_env\<lparr>TCKimlikNoDogrulaAsync := (\<lambda>i fn ln y. Inr False)\<rparr>" "ex_body ''12345678901''"
      "''ALI''" "''KAYA''" "ex_world [ex_player ''al'' ''10000000001'' False]"]
  by (simp add: ex_env_def ex_session_def ex_body_def ex_world_def)

text \<open>
  C1 as stated, that a truthy verification, no banned record with the signature and a
  successful join always end in one new record and the success page, fails when the
  store rejects the write: the account has joined the team, no record exists, and the
  response is the error page.
\<close>

theorem rejected_write_after_join:
  "post_verify_gov ex_env_rejecting_writes (ex_body ''12345678901'') (ex_session ''bob'')
     (ex_world []) =
     (Inr (Redirect 303 ''/messages/error''),
      \<lparr>players = [],
       calls = [SoapCreateClient, SoapVerify (Some ''12345678901'') ''ALI'' ''KAYA'' (Some ''1990''),
                PlayerFind (Q_signature_banned ''sha1:12345678901''), TeamJoin (Some ''tok''),
                PlayerCreate (ex_doc ''bob'' ''12345678901'' False)]\<rparr>)"
  by (simp add: post_verify_gov_def handler_defs store_defs io_defs ex_defs
      ex_env_rejecting_writes_def)

text \<open>
  C1, amended. For every verification submission (id, name, surname, year) by an
  authenticated session where the identity verification answers with a truthy status,
  no banned record in the store has the signature of the id, the team join answers
  \<^verbatim>\<open>ok\<close> and the store accepts the lookup and the write (the year passing the schema's
  cast to a number \<open>n\<close>), the handler creates exactly one new PlayerRecord, with
  \<open>banned = False\<close>, the session's user id and user name, the submitted name and
  surname and the number \<open>n\<close> that the schema makes of the submitted year, and
  redirects (303) to the success page.
\<close>

theorem post_verify_gov_verified_joins:
  assumes "session.userId sess = Some uid" and "uid \<noteq> []"
    and "createClientAsync env = Inr ()"
    and "name body = Some fn" and "surname body = Some ln"
    and "TCKimlikNoDogrulaAsync env (id' body) (toLocaleUpperCase_tr env fn)
           (toLocaleUpperCase_tr env ln) (year body) = Inr True"
    and "id' body = Some i"
    and "store_rejects env (PlayerFind (Q_signature_banned (sha1_hex env i))) = None"
    and "\<forall>p\<in>set (players w). \<not> (govIdSignature p = sha1_hex env i \<and> banned p)"
    and "team_join env (session.authToken sess) = Inr True"
    and "doc = \<lparr>userId = uid, userName = session.userName sess, firstName = name body,
                lastName = surname body, birthYear = year body, govId = mask_govId i,
                govIdSignature = sha1_hex env i, banned = False\<rparr>"
    and "castNumber env (year body) = Inr n"
    and "store_rejects env (PlayerCreate doc) = None"
  shows "post_verify_gov env body sess w =
           (Inr (Redirect 303 ''/messages/success''),
            w\<lparr>players := players w @
                 [\<lparr>userId = uid, userName = session.userName sess, firstName = name body,
                   lastName = surname body, birthYear = n, govId = mask_govId i,
                   govIdSignature = sha1_hex env i, banned = False\<rparr>],
              calls := calls w @
                 [SoapCreateClient,
                  SoapVerify (id' body) (toLocaleUpperCase_tr env fn)
                    (toLocaleUpperCase_tr env ln) (year body),
                  PlayerFind (Q_signature_banned (sha1_hex env i)),
                  TeamJoin (session.authToken sess),
                  PlayerCreate doc]\<rparr>)"
proof -
  have "filter (matches (Q_signature_banned (sha1_hex env i))) (players w) = []"
    using assms(9) by (auto simp add: filter_empty_conv)
  then show ?thesis
    using assms by (simp add: post_verify_gov_def handler_defs store_defs io_defs)
qed

theorem post_verify_gov_verified_joins_witness:
  "post_verify_gov ex_env (ex_body ''12345678901'') (ex_session ''bob'')
     (ex_world [ex_player ''al'' ''10000000001'' False]) =
     (Inr (Redirect 303 ''/messages/success''),
      \<lparr>players = [ex_player ''al'' ''10000000001'' False, ex_player ''bob'' ''12345678901'' False],
       calls = [SoapCreateClient, SoapVerify (Some ''12345678901'') ''ALI'' ''KAYA'' (Some ''1990''),
                PlayerFind (Q_signature_banned ''sha1:12345678901''), TeamJoin (Some ''tok''),
                PlayerCreate (ex_doc ''bob'' ''12345678901'' False)]\<rparr>)"
  using post_verify_gov_verified_joins[of "ex_session ''bob''" "''bob''" ex_env
      "ex_body ''12345678901''" "''ALI''" "''KAYA''" "''12345678901''"
      "ex_world [ex_player ''al'' ''10000000001'' False]"
      "ex_doc ''bob'' ''12345678901'' False" 1990]
  by (simp add: ex_env_def ex_session_def ex_body_def ex_world_def ex_doc_def ex_player_def)

text \<open>
  C2 as stated fails in the same way: a new alias of a banned identity gets the error
  page and no record when the store rejects the write.
\<close>

theorem rejected_write_of_alias:
  "post_verify_gov ex_env_rejecting_writes (ex_body ''12345678901'') (ex_session ''bob'')
     (ex_world [ex_player ''al'' ''12345678901'' True]) =
     (Inr (Redirect 303 ''/messages/error''),
      \<lparr>players = [ex_player ''al'' ''12345678901'' True],
       calls = [SoapCreateClient, SoapVerify (Some ''12345678901'') ''ALI'' ''KAYA'' (Some ''1990''),
                PlayerFind (Q_signature_banned ''sha1:12345678901''),
                PlayerCreate (ex_doc ''bob'' ''12345678901'' True)]\<rparr>)"
  by (simp add: post_verify_gov_def handler_defs store_defs io_defs ex_defs
      ex_env_rejecting_writes_def)

text \<open>
  C2, amended. For every verification submission whose signature matches at least one
  banned record \<open>bs\<close> (the store accepting the lookup): if none of \<open>bs\<close> belongs to
  the account of the session and the store accepts the write (the year passing the
  schema's cast to a number \<open>n\<close>), one more record with \<open>banned = True\<close> and the
  user id of the session is created, holding \<open>n\<close> as its birth year, and the response
  redirects (303) to the banned page; if one of \<open>bs\<close> belongs to that account, no
  record is created, no write is issued, and the response still redirects to the
  banned page.
\<close>

theorem post_verify_gov_banned_signature:
  assumes "session.userId sess = Some uid" and "uid \<noteq> []"
    and "createClientAsync env = Inr ()"
    and "name body = Some fn" and "surname body = Some ln"
    and "TCKimlikNoDogrulaAsync env (id' body) (toLocaleUpperCase_tr env fn)
           (toLocaleUpperCase_tr env ln) (year body) = Inr True"
    and "id' body = Some i"
    and "store_rejects env (PlayerFind (Q_signature_banned (sha1_hex env i))) = None"
    and "bs = filter (\<lambda>p. govIdSignature p = sha1_hex env i \<and> banned p) (players w)"
    and "bs \<noteq> []"
    and "doc = \<lparr>userId = uid, userName = session.userName sess, firstName = name body,
                lastName = surname body, birthYear = year body, govId = mask_govId i,
                govIdSignature = sha1_hex env i, banned = True\<rparr>"
    and "cs = calls w @
                 [SoapCreateClient,
                  SoapVerify (id' body) (toLocaleUpperCase_tr env fn)
                    (toLocaleUpperCase_tr env ln) (year body),
                  PlayerFind (Q_signature_banned (sha1_hex env i))]"
  shows "((\<forall>p\<in>set bs. userId p \<noteq> uid) \<and> castNumber env (year body) = Inr n \<and>
          store_rejects env (PlayerCreate doc) = None \<longrightarrow>
            post_verify_gov env body sess w =
              (Inr (Redirect 303 ''/messages/banned''),
               w\<lparr>players := players w @
                    [\<lparr>userId = uid, userName = session.userName sess, firstName = name body,
                      lastName = surname body, birthYear = n, govId = mask_govId i,
                      govIdSignature = sha1_hex env i, banned = True\<rparr>],
                 calls := cs @ [PlayerCreate doc]\<rparr>))
       \<and> ((\<exists>p\<in>set bs. userId p = uid) \<longrightarrow>
            post_verify_gov env body sess w =
              (Inr (Redirect 303 ''/messages/banned''), w\<lparr>calls := cs\<rparr>))"
proof -
  have m: "filter (matches (Q_signature_banned (sha1_hex env i))) (players w) = bs"
    unfolding assms(9) by (rule filter_cong) auto
  have f: "(find (\<lambda>bannedPlayer. userId bannedPlayer = uid) bs = None)
             \<longleftrightarrow> (\<forall>p\<in>set bs. userId p \<noteq> uid)"
    by (auto simp add: find_None_iff)
  show ?thesis
    using assms(1-8,10-12) m f
    by (auto simp add: post_verify_gov_def handler_defs store_defs io_defs)
qed

theorem post_verify_gov_banned_signature_witness:
  "post_verify_gov ex_env (ex_body ''12345678901'') (ex_session ''bob'')
     (ex_world [ex_player ''al'' ''12345678901'' True]) =
     (Inr (Redirect 303 ''/messages/banned''),
      \<lparr>players = [ex_player ''al'' ''12345678901'' True, ex_player ''bob'' ''12345678901'' True],
       calls = [SoapCreateClient, SoapVerify (Some ''12345678901'') ''ALI'' ''KAYA'' (Some ''1990''),
                PlayerFind (Q_signature_banned ''sha1:12345678901''),
                PlayerCreate (ex_doc ''bob'' ''12345678901'' True)]\<rparr>)
   \<and> post_verify_gov ex_env (ex_body ''12345678901'') (ex_session ''al'')
     (ex_world [ex_player ''al'' ''12345678901'' True]) =
     (Inr (Redirect 303 ''/messages/banned''),
      \<lparr>players = [ex_player ''al'' ''12345678901'' True],
       calls = [SoapCreateClient, SoapVerify (Some ''12345678901'') ''ALI'' ''KAYA'' (Some ''1990''),
                PlayerFind (Q_signature_banned ''sha1:12345678901'')]\<rparr>)"
  using post_verify_gov_banned_signature[of "ex_session ''bob''" "''bob''" ex_env
      "ex_body ''12345678901''" "''ALI''" "''KAYA''" "''12345678901''"
      "[ex_player ''al'' ''12345678901'' True]"
      "ex_world [ex_player ''al'' ''12345678901'' True]"
      "ex_doc ''bob'' ''12345678901'' True"
      "[SoapCreateClient, SoapVerify (Some ''12345678901'') ''ALI'' ''KAYA'' (Some ''1990''),
        PlayerFind (Q_signature_banned ''sha1:12345678901'')]" 1990]
    post_verify_gov_banned_signature[of "ex_session ''al''" "''al''" ex_env
      "ex_body ''12345678901''" "''ALI''" "''KAYA''" "''12345678901''"
      "[ex_player ''al'' ''12345678901'' True]"
      "ex_world [ex_player ''al'' ''12345678901'' True]"
      "ex_doc ''al'' ''12345678901'' True"
      "[SoapCreateClient, SoapVerify (Some ''12345678901'') ''ALI'' ''KAYA'' (Some ''1990''),
        PlayerFind (Q_signature_banned ''sha1:12345678901'')]" 1990]
  by (simp add: ex_env_def ex_session_def ex_body_def ex_world_def ex_doc_def ex_player_def)

section \<open>What is stored as the national id\<close>

text \<open>
  C3. For every 8-digit submitted id on a record-creating path of \<^verbatim>\<open>POST /verify/gov\<close>,
  the stored \<open>govId\<close> is the first 3 digits of the id followed by the placeholder
  \<^verbatim>\<open>*****\<close> in place of the remaining 5 digits, and the stored \<open>govIdSignature\<close> is the
  hex digest of the original, unmasked id. A path creates a record when the collection
  it leaves differs from the one it found.
\<close>

theorem stored_govId_eight_digits:
  assumes "post_verify_gov env body sess w = (r, w')"
    and "players w' \<noteq> players w"
    and "id' body = Some i" and "length i = 8" and "list_all is_digit i"
  shows "\<exists>doc. players w' = players w @ [doc] \<and>
           govId doc = take 3 i @ ''*****'' \<and> govIdSignature doc = sha1_hex env i"
proof -
  from post_verify_gov_created[OF assms(1,2)] assms(3)
  obtain doc where "players w' = players w @ [doc]" "govId doc = mask_govId i"
    "govIdSignature doc = sha1_hex env i" by auto
  moreover have "mask_govId i = take 3 i @ ''*****''"
    using mask_govId_digits[of i] assms(4,5) by simp
  ultimately show ?thesis by simp
qed

theorem stored_govId_eight_digits_witness:
  "players (snd (post_verify_gov ex_env (ex_body ''12345678'') (ex_session ''bob'') (ex_world [])))
     \<noteq> players (ex_world []) \<and>
   length ''12345678'' = 8 \<and> list_all is_digit ''12345678'' \<and>
   map govId (players (snd (post_verify_gov ex_env (ex_body ''12345678'') (ex_session ''bob'')
     (ex_world [])))) = [''123*****''] \<and>
   map govIdSignature (players (snd (post_verify_gov ex_env (ex_body ''12345678'')
     (ex_session ''bob'') (ex_world [])))) = [sha1_hex ex_env ''12345678'']"
proof -
  let ?run = "post_verify_gov ex_env (ex_body ''12345678'') (ex_session ''bob'') (ex_world [])"
  have h1: "?run = (fst ?run, snd ?run)" by simp
  have h2: "players (snd ?run) \<noteq> players (ex_world [])"
    by (simp add: ex_run_success) (simp add: ex_world_def)
  have h3: "id' (ex_body ''12345678'') = Some ''12345678''" by (simp add: ex_body_def)
  have h4: "length ''12345678'' = 8" by simp
  have h5: "list_all is_digit ''12345678''" by (simp add: is_digit_def)
  from stored_govId_eight_digits[OF h1 h2 h3 h4 h5] h2 h5
  show ?thesis by (auto simp add: ex_world_def)
qed

text \<open>
  C10. For every submitted id of more than 8 digits (an 11-digit national id, say) on a
  record-creating path, the stored \<open>govId\<close> keeps the first 3 digits, has \<^verbatim>\<open>*****\<close> in
  place of digits 4 to 8 and keeps every digit after the 8th as submitted.
\<close>

theorem stored_govId_longer_ids:
  assumes "post_verify_gov env body sess w = (r, w')"
    and "players w' \<noteq> players w"
    and "id' body = Some i" and "8 < length i" and "list_all is_digit i"
  shows "\<exists>doc. players w' = players w @ [doc] \<and>
           govId doc = take 3 i @ ''*****'' @ drop 8 i"
proof -
  from post_verify_gov_created[OF assms(1,2)] assms(3)
  obtain doc where "players w' = players w @ [doc]" "govId doc = mask_govId i" by auto
  moreover have "mask_govId i = take 3 i @ ''*****'' @ drop 8 i"
    using mask_govId_digits[of i] assms(4,5) by simp
  ultimately show ?thesis by simp
qed

theorem stored_govId_longer_ids_witness:
  "players (snd (post_verify_gov ex_env (ex_body ''12345678901'') (ex_session ''bob'')
     (ex_world []))) \<noteq> players (ex_world []) \<and>
   8 < length ''12345678901'' \<and> list_all is_digit ''12345678901'' \<and>
   map govId (players (snd (post_verify_gov ex_env (ex_body ''12345678901'') (ex_session ''bob'')
     (ex_world [])))) = [''123*****901'']"
proof -
  let ?run = "post_verify_gov ex_env (ex_body ''12345678901'') (ex_session ''bob'') (ex_world [])"
  have h1: "?run = (fst ?run, snd ?run)" by simp
  have h2: "players (snd ?run) \<noteq> players (ex_world [])"
    by (simp add: ex_run_success) (simp add: ex_world_def)
  have h3: "id' (ex_body ''12345678901'') = Some ''12345678901''" by (simp add: ex_body_def)
  have h4: "8 < length ''12345678901''" by simp
  have h5: "list_all is_digit ''12345678901''" by (simp add: is_digit_def)
  from stored_govId_longer_ids[OF h1 h2 h3 h4 h5] h2 h5
  show ?thesis by (auto simp add: ex_world_def)
qed

text \<open>
  C4. The claim is that for a submitted id of any length the id is masked before it is
  stored, so that \<open>govId\<close> never holds the unmasked id. The handler sets out to do so
  (lines 245 and 265 call the value the masked gov id), but the replacement needs eight
  digits in a row and finds nothing to replace in a shorter id: a verified 7-digit id
  is stored in \<open>govId\<close> as it was submitted.
\<close>

theorem short_id_stored_unmasked:
  "post_verify_gov ex_env (ex_body ''1234567'') (ex_session ''bob'') (ex_world []) =
     (Inr (Redirect 303 ''/messages/success''),
      \<lparr>players =
         [\<lparr>userId = ''bob'', userName = Some ''bob'', firstName = Some ''ALI'',
           lastName = Some ''KAYA'', birthYear = 1990, govId = ''1234567'',
           govIdSignature = ''sha1:1234567'', banned = False\<rparr>],
       calls = [SoapCreateClient, SoapVerify (Some ''1234567'') ''ALI'' ''KAYA'' (Some ''1990''),
                PlayerFind (Q_signature_banned ''sha1:1234567''), TeamJoin (Some ''tok''),
                PlayerCreate
                  \<lparr>userId = ''bob'', userName = Some ''bob'', firstName = Some ''ALI'',
                   lastName = Some ''KAYA'', birthYear = Some ''1990'', govId = ''1234567'',
                   govIdSignature = ''sha1:1234567'', banned = False\<rparr>]\<rparr>)"
  by (simp add: ex_run_success ex_player_def ex_doc_def mask_govId_def digits_at_def
      is_digit_def)

text \<open>
  How far the defect reaches: on a record-creating path the stored \<open>govId\<close> has the
  length of the id, and it is the id itself exactly when the id has no eight digits in
  a row.
\<close>

lemma govId_differs_iff_digit_run:
  assumes "post_verify_gov env body sess w = (r, w')"
    and "players w' \<noteq> players w"
    and "id' body = Some i"
  shows "\<exists>doc. players w' = players w @ [doc] \<and> govId doc = mask_govId i \<and>
           length (govId doc) = length i \<and> (govId doc \<noteq> i \<longleftrightarrow> has_digit_run 8 i)"
proof -
  from post_verify_gov_created[OF assms(1,2)] assms(3)
  obtain doc where "players w' = players w @ [doc]" "govId doc = mask_govId i" by auto
  moreover have "length (mask_govId i) = length i"
    by (simp add: mask_govId_def mask_scan_length)
  ultimately show ?thesis using mask_govId_changes[of i] by simp
qed

section \<open>The OAuth callback\<close>

text \<open>
  C5. The claim is that a callback whose code exchange and account fetch succeed stores
  \<open>userId\<close>, \<open>userName\<close> and \<open>authToken\<close> in the session and redirects to the
  stored return URL. The handler does not: with a token endpoint that answers with an
  access token, a platform that would answer the account request with the account
  \<open>bob\<close>, and a return URL \<^verbatim>\<open>/verify/gov\<close> in the session, it redirects to the home
  page, leaves the session as it was and never issues the account request.
\<close>

theorem callback_after_successful_exchange:
  "callback ex_env (Some ''code'') ex_anonymous (ex_world []) =
     (Inr (Redirect 303 ''/'', ex_anonymous),
      \<lparr>players = [], calls = [OAuthGetToken (Some ''code'')]\<rparr>)"
  by (simp add: callback_always_home ex_world_def)

section \<open>The administrator's routes\<close>

text \<open>
  C8. For every request to an admin route (\<^verbatim>\<open>/players/waiting\<close>, \<^verbatim>\<open>/players/verified\<close>,
  \<^verbatim>\<open>/players/banned\<close>, \<^verbatim>\<open>/players/ban\<close>, \<^verbatim>\<open>/players/unban\<close>) from an authenticated
  session whose user id is not the configured administrator id, the response is a
  redirect (303) to the home page, and neither a store nor a remote operation is
  issued: the world is left as it was.
\<close>

theorem non_admin_redirected_home:
  assumes "session.userId sess = Some a" and "a \<noteq> []" and "LICHESS_TEAM_ADMIN env \<noteq> Some a"
  shows "get_players env pt sess w = (Inr (Redirect 303 ''/''), w)
       \<and> get_players_banned env sess w = (Inr (Redirect 303 ''/''), w)
       \<and> post_players_ban env user sess w = (Inr (Redirect 303 ''/''), w)
       \<and> post_players_unban env user sess w = (Inr (Redirect 303 ''/''), w)"
  using assms
  by (auto simp add: get_players_def get_players_banned_def post_players_ban_def
      post_players_unban_def io_return_def)

theorem non_admin_redirected_home_witness:
  "get_players ex_env waiting (ex_session ''bob'') (ex_world []) = (Inr (Redirect 303 ''/''), ex_world [])
   \<and> get_players ex_env verified (ex_session ''bob'') (ex_world []) = (Inr (Redirect 303 ''/''), ex_world [])
   \<and> get_players_banned ex_env (ex_session ''bob'') (ex_world []) = (Inr (Redirect 303 ''/''), ex_world [])
   \<and> post_players_ban ex_env ''al'' (ex_session ''bob'') (ex_world []) = (Inr (Redirect 303 ''/''), ex_world [])
   \<and> post_players_unban ex_env ''al'' (ex_session ''bob'') (ex_world []) = (Inr (Redirect 303 ''/''), ex_world [])"
  using non_admin_redirected_home[of "ex_session ''bob''" "''bob''" ex_env waiting "ex_world []" "''al''"]
    non_admin_redirected_home[of "ex_session ''bob''" "''bob''" ex_env verified "ex_world []" "''al''"]
  by (simp add: ex_env_def ex_session_def)

text \<open>
  C7 as stated, for every stored set of players, fails when the store rejects the
  query: no view is rendered and the response is the error page.
\<close>

theorem rejected_read_of_players:
  "get_players ex_env_rejecting_reads waiting (ex_session ''admin'')
     (ex_world [ex_player ''bob'' ''12345678901'' False]) =
     (Inr (Redirect 303 ''/messages/error''),
      \<lparr>players = [ex_player ''bob'' ''12345678901'' False],
       calls = [TeamUsers (Some ''tok''), PlayerFind (Q_userId_nin [''alice''])]\<rparr>)"
  by (simp add: get_players_def handler_defs store_defs io_defs ex_defs
      ex_env_rejecting_reads_def)

text \<open>
  C7, amended. For every admin session, every store and every roster that the team
  listing answers with, the store accepting the query: the waiting view renders
  exactly the players with \<open>banned = False\<close> whose user id is not in the roster, the
  verified view exactly those with \<open>banned = False\<close> whose user id is in the roster,
  both in the order of the store; the store is not changed.
\<close>

theorem player_lists_by_roster:
  assumes "session.userId sess = Some a" and "a \<noteq> []" and "LICHESS_TEAM_ADMIN env = Some a"
    and "team_users env (session.authToken sess) = Inr roster"
    and "store_rejects env (PlayerFind (Q_userId_nin roster)) = None"
    and "store_rejects env (PlayerFind (Q_userId_in roster)) = None"
  shows "fst (get_players env waiting sess w) =
           Inr (Render ''players/waiting.html.twig''
                  (filter (\<lambda>p. \<not> banned p \<and> userId p \<notin> set roster) (players w)))
       \<and> fst (get_players env verified sess w) =
           Inr (Render ''players/verified.html.twig''
                  (filter (\<lambda>p. \<not> banned p \<and> userId p \<in> set roster) (players w)))
       \<and> players (snd (get_players env pt sess w)) = players w"
proof -
  have "filter (matches (Q_userId_nin roster)) (players w) =
        filter (\<lambda>p. \<not> banned p \<and> userId p \<notin> set roster) (players w)"
    by (rule filter_cong) auto
  moreover have "filter (matches (Q_userId_in roster)) (players w) =
        filter (\<lambda>p. \<not> banned p \<and> userId p \<in> set roster) (players w)"
    by (rule filter_cong) auto
  ultimately show ?thesis
    using assms by (cases pt) (simp_all add: get_players_def handler_defs store_defs io_defs)
qed

theorem player_lists_by_roster_witness:
  "fst (get_players ex_env waiting (ex_session ''admin'')
     (ex_world [ex_player ''alice'' ''10000000001'' False, ex_player ''bob'' ''12345678901'' False,
                ex_player ''carl'' ''10000000003'' True])) =
     Inr (Render ''players/waiting.html.twig'' [ex_player ''bob'' ''12345678901'' False])
   \<and> fst (get_players ex_env verified (ex_session ''admin'')
     (ex_world [ex_player ''alice'' ''10000000001'' False, ex_player ''bob'' ''12345678901'' False,
                ex_player ''carl'' ''10000000003'' True])) =
     Inr (Render ''players/verified.html.twig'' [ex_player ''alice'' ''10000000001'' False])"
  using player_lists_by_roster[of "ex_session ''admin''" "''admin''" ex_env "[''alice'']"
      "ex_world [ex_player ''alice'' ''10000000001'' False, ex_player ''bob'' ''12345678901'' False,
                ex_player ''carl'' ''10000000003'' True]" waiting]
  by (simp add: ex_env_def ex_session_def ex_world_def ex_player_def)

text \<open>
  C6 as stated, that a ban redirects to the verified list whatever the outcome of the
  kick and of the update, fails when the kick is rejected: the response is the error
  page, while the local record has been set to banned.
\<close>

theorem kick_rejected_on_ban:
  "post_players_ban ex_env_kick_fails ''bob'' (ex_session ''admin'')
     (ex_world [ex_player ''bob'' ''12345678901'' False]) =
     (Inr (Redirect 303 ''/messages/error''),
      \<lparr>players = [ex_player ''bob'' ''12345678901'' True],
       calls = [TeamKick ''bob'' (Some ''tok''), PlayerFindOneAndUpdate ''bob'' True]\<rparr>)"
  by (simp add: post_players_ban_def handler_defs store_defs io_defs ex_defs
      ex_env_kick_fails_def)

text \<open>
  C6, amended. For every admin-initiated ban, the handler issues both the remote kick
  and the local \<open>banned = True\<close> update, each whatever becomes of the other. It
  redirects to the verified list when both resolve, whatever the kick's \<^verbatim>\<open>ok\<close> and
  whether or not a record matched, and to the error page when one of them is rejected.
  For every admin-initiated unban, the only operation is the local update to
  \<open>banned = False\<close>: no team call is made.
\<close>

theorem admin_ban_and_unban:
  assumes "session.userId sess = Some a" and "a \<noteq> []" and "LICHESS_TEAM_ADMIN env = Some a"
  shows "post_players_ban env user sess w =
           (Inr (if \<not> isl (team_kick env user (session.authToken sess)) \<and>
                    store_rejects env (PlayerFindOneAndUpdate user True) = None
                 then Redirect 303 ''/players/verified''
                 else Redirect 303 ''/messages/error''),
            w\<lparr>players := (if store_rejects env (PlayerFindOneAndUpdate user True) = None
                           then set_banned_first user True (players w) else players w),
              calls := calls w @ [TeamKick user (session.authToken sess),
                                  PlayerFindOneAndUpdate user True]\<rparr>)
       \<and> post_players_unban env user sess w =
           (Inr (if store_rejects env (PlayerFindOneAndUpdate user False) = None
                 then Redirect 303 ''/players/verified''
                 else Redirect 303 ''/messages/error''),
            w\<lparr>players := (if store_rejects env (PlayerFindOneAndUpdate user False) = None
                           then set_banned_first user False (players w) else players w),
              calls := calls w @ [PlayerFindOneAndUpdate user False]\<rparr>)
       \<and> filter is_team_call (calls (snd (post_players_unban env user sess w))) =
           filter is_team_call (calls w)"
  using assms
  by (auto simp add: post_players_ban_def post_players_unban_def handler_defs store_defs io_defs
      split: sum.splits option.splits)

theorem admin_ban_and_unban_witness:
  "post_players_ban ex_env ''bob'' (ex_session ''admin'')
     (ex_world [ex_player ''bob'' ''12345678901'' False]) =
     (Inr (Redirect 303 ''/players/verified''),
      \<lparr>players = [ex_player ''bob'' ''12345678901'' True],
       calls = [TeamKick ''bob'' (Some ''tok''), PlayerFindOneAndUpdate ''bob'' True]\<rparr>)
   \<and> post_players_unban ex_env ''bob'' (ex_session ''admin'')
     (ex_world [ex_player ''bob'' ''12345678901'' True]) =
     (Inr (Redirect 303 ''/players/verified''),
      \<lparr>players = [ex_player ''bob'' ''12345678901'' False],
       calls = [PlayerFindOneAndUpdate ''bob'' False]\<rparr>)"
  using admin_ban_and_unban[of "ex_session ''admin''" "''admin''" ex_env "''bob''"
      "ex_world [ex_player ''bob'' ''12345678901'' False]"]
    admin_ban_and_unban[of "ex_session ''admin''" "''admin''" ex_env "''bob''"
      "ex_world [ex_player ''bob'' ''12345678901'' True]"]
  by (simp add: ex_env_def ex_session_def ex_world_def ex_player_def)

end
